theory Spec2Isabelle
  imports Main "HOL-Library.Multiset"
begin

section \<open>The random source\<close>

text \<open>
  The script draws from Python's global generator (\<^verbatim>\<open>random.choice\<close>,
  \<^verbatim>\<open>random.choices\<close>, \<^verbatim>\<open>random.shuffle\<close>). The generator is modelled as an
  infinite stream of raw draws, threaded through every call: a draw below \<open>n\<close> reads the
  head of the stream, reduces it modulo \<open>n\<close> and leaves the tail. Every index sequence the
  real generator can produce is produced by some stream, so a property proved for all
  streams holds for every run.
\<close>

type_synonym rng = "nat \<Rightarrow> nat"

definition randbelow :: "nat \<Rightarrow> rng \<Rightarrow> nat \<times> rng" where
  "randbelow n g = (g 0 mod n, \<lambda>i. g (Suc i))"

text \<open>\<^verbatim>\<open>random.choice(seq)\<close> is \<^verbatim>\<open>seq[self._randbelow(len(seq))]\<close>.\<close>

definition choice :: "'a list \<Rightarrow> rng \<Rightarrow> 'a \<times> rng" where
  "choice seq g = (let (i, g') = randbelow (length seq) g in (seq ! i, g'))"

text \<open>
  \<^verbatim>\<open>random.choices(population, k=k)\<close> without weights is
  \<^verbatim>\<open>[population[floor(random() * n)] for i in repeat(None, k)]\<close>: \<open>k\<close> independent
  indices below \<open>n\<close>, drawn left to right.
\<close>

fun choices :: "'a list \<Rightarrow> nat \<Rightarrow> rng \<Rightarrow> 'a list \<times> rng" where
  "choices population 0 g = ([], g)"
| "choices population (Suc k) g =
     (let (i, g') = randbelow (length population) g;
          (rest, g'') = choices population k g'
      in (population ! i # rest, g''))"

text \<open>
  \<^verbatim>\<open>random.shuffle(x)\<close> is the loop
  \<^verbatim>\<open>for i in reversed(range(1, len(x))): j = randbelow(i + 1); x[i], x[j] = x[j], x[i]\<close>.
  \<open>shuffle_loop i\<close> is the loop from index \<open>i\<close> down to \<open>1\<close>.
\<close>

fun shuffle_loop :: "nat \<Rightarrow> 'a list \<Rightarrow> rng \<Rightarrow> 'a list \<times> rng" where
  "shuffle_loop 0 x g = (x, g)"
| "shuffle_loop (Suc m) x g =
     (let i = Suc m;
          (j, g') = randbelow (i + 1) g
      in shuffle_loop m (x[i := x ! j, j := x ! i]) g')"

definition shuffle :: "'a list \<Rightarrow> rng \<Rightarrow> 'a list \<times> rng" where
  "shuffle x g = shuffle_loop (length x - 1) x g"

section \<open>The identifier generator\<close>

definition ascii_lowercase :: string where
  "ascii_lowercase = ''abcdefghijklmnopqrstuvwxyz''"

definition ascii_uppercase :: string where
  "ascii_uppercase = ''ABCDEFGHIJKLMNOPQRSTUVWXYZ''"

definition ascii_letters :: string where
  "ascii_letters = ascii_lowercase @ ascii_uppercase"

definition digits :: string where
  "digits = ''0123456789''"

text \<open>
  \<^verbatim>\<open>generate_random_string(length=2)\<close>. The argument is a Python integer, so it may be
  negative (it is called \<open>len\<close> here, \<open>length\<close> being the list function); the result
  is the string and the generator after the draws.
\<close>

definition generate_random_string :: "int \<Rightarrow> rng \<Rightarrow> string \<times> rng" where
  "generate_random_string len g =
     (if len < 1 then ('''', g)
      else
        let chars = ascii_letters @ digits;
            (mandatory_letter, g1) = choice ascii_letters g;
            (remaining_chars, g2) = choices chars (nat (len - 1)) g1;
            full_chars = remaining_chars @ [mandatory_letter];
            (shuffled, g3) = shuffle full_chars g2
        in (shuffled, g3))"

section \<open>Strings and truth values\<close>

text \<open>
  A Python \<^verbatim>\<open>str\<close> is held as the byte sequence of its UTF-8 encoding, so
  \<^verbatim>\<open>s.encode("utf-8")\<close> is the string itself and the non-ASCII literals of the
  script are written byte by byte. A list of bytes wrapped in \<^verbatim>\<open>BytesIO\<close> is the
  list. A string that has no UTF-8 encoding (one holding a lone surrogate) is not
  represented, and neither is a \<^verbatim>\<open>print\<close> that fails on its output stream.
  \<^verbatim>\<open>x or d\<close> yields \<open>d\<close> when \<open>x\<close> is falsy: the empty string, or
  \<^verbatim>\<open>None\<close> for an option that has no default.
\<close>

definition py_or :: "string \<Rightarrow> string \<Rightarrow> string" where
  "py_or x d = (if x \<noteq> [] then x else d)"

definition py_or_opt :: "string option \<Rightarrow> string \<Rightarrow> string" where
  "py_or_opt x d = (case x of None \<Rightarrow> d | Some v \<Rightarrow> py_or v d)"

section \<open>The command line\<close>

text \<open>
  The namespace that \<^verbatim>\<open>parser.parse_args()\<close> returns. The field of
  \<^verbatim>\<open>--image\<close> is called \<open>image'\<close>, \<open>image\<close> being the image of a set under a
  function. \<^verbatim>\<open>--git-repo\<close> and \<^verbatim>\<open>--git-branch\<close> are declared without a default,
  so they are \<^verbatim>\<open>None\<close> when absent.
\<close>

record args =
  token :: string
  image' :: string
  git_url :: string
  git_repo :: "string option"
  git_branch :: "string option"
  git_token :: string
  password :: string
  webdav_url :: string
  webdav_user :: string
  webdav_pass :: string
  account_id :: string
  access_key_id :: string
  secret_access_key :: string

text \<open>
  The command line is the finite map from the option strings that were supplied to the
  values supplied with them. An option declared \<^verbatim>\<open>required=True\<close> that is absent
  makes \<^verbatim>\<open>parse_args\<close> report the missing options and exit with status 2; an absent
  optional one takes its declared default.
\<close>

type_synonym cmdline = "string \<rightharpoonup> string"

definition supplied_or :: "cmdline \<Rightarrow> string \<Rightarrow> string \<Rightarrow> string" where
  "supplied_or cli opt dflt = (case cli opt of None \<Rightarrow> dflt | Some v \<Rightarrow> v)"

definition required_options :: "string list" where
  "required_options = [''--token'', ''--git-token'', ''--password'']"

definition parse_args :: "cmdline \<Rightarrow> string list + args" where
  "parse_args cli =
     (case (cli ''--token'', cli ''--git-token'', cli ''--password'') of
        (Some tok, Some gtok, Some pw) \<Rightarrow>
          Inr \<lparr> token = tok,
                image' = supplied_or cli ''--image'' '''',
                git_url = supplied_or cli ''--git-url'' '''',
                git_repo = cli ''--git-repo'',
                git_branch = cli ''--git-branch'',
                git_token = gtok,
                password = pw,
                webdav_url = supplied_or cli ''--webdav-url'' '''',
                webdav_user = supplied_or cli ''--webdav-user'' '''',
                webdav_pass = supplied_or cli ''--webdav-pass'' '''',
                account_id = supplied_or cli ''--account-id'' '''',
                access_key_id = supplied_or cli ''--access-key-id'' '''',
                secret_access_key = supplied_or cli ''--secret-access-key'' '''' \<rparr>
      | _ \<Rightarrow> Inl (filter (\<lambda>opt. cli opt = None) required_options))"

section \<open>The platform and the observable behaviour\<close>

text \<open>
  The platform client is outside the program. A run meets it at five call sites, each
  reached at most once, so the platform is given by what each call site answers:
  \<open>None\<close> when the call returns, \<open>Some e\<close> when it raises \<open>e\<close>. The answer of
  \<^verbatim>\<open>upload_file\<close> is taken per \<^verbatim>\<open>path_in_repo\<close>. The identity response is the
  dictionary of its string-valued fields.
\<close>

datatype exc = Exc string

record platform =
  HfApi_result :: "exc option"
  whoami_result :: "exc + (string \<rightharpoonup> string)"
  create_repo_result :: "exc option"
  upload_file_result :: "string \<Rightarrow> exc option"

text \<open>
  What a run does, in order: lines printed, the error report of the argument parser, and
  the calls to the client with their arguments (\<open>CreateRepo repo_id repo_type space_sdk
  space_secrets\<close>, \<open>UploadFile repo_id path_in_repo path_or_fileobj repo_type\<close>). A secret
  \<^verbatim>\<open>{"key": k, "value": v}\<close> is the pair \<open>(k, v)\<close>.
\<close>

datatype event =
    Print string
  | ArgparseError "string list"
  | HfApi string
  | Whoami
  | CreateRepo string string string "(string \<times> string) list"
  | UploadFile string string string string

text \<open>
  How a run ends: it runs off the end of the script, it calls \<^verbatim>\<open>sys.exit(n)\<close>, or an
  exception of the client reaches the top level, where the interpreter exits with
  status 1.
\<close>

datatype outcome = Finished | SysExit int | Uncaught exc

fun exit_status :: "outcome \<Rightarrow> int" where
  "exit_status Finished = 0"
| "exit_status (SysExit n) = n"
| "exit_status (Uncaught e) = 1"

section \<open>The generated artifacts\<close>

definition readme_content :: "string \<Rightarrow> string" where
  "readme_content space_name =
     ''\<newline>'' @
     ''---\<newline>'' @
     ''title: '' @ space_name @ ''\<newline>'' @
     ''emoji: '' @ [CHR 0xF0, CHR 0x9F, CHR 0x98, CHR 0xBB] @ ''\<newline>'' @
     ''colorFrom: red\<newline>'' @
     ''colorTo: blue\<newline>'' @
     ''sdk: docker\<newline>'' @
     ''app_port: 3000\<newline>'' @
     ''pinned: false\<newline>'' @
     ''---\<newline>'' @
     ''Check out the configuration reference at https://huggingface.co/docs/hub/spaces-config-reference\<newline>''"

definition dockerfile_content :: "string \<Rightarrow> string" where
  "dockerfile_content img = ''FROM '' @ img @ ''\<newline>''"

definition secrets :: "args \<Rightarrow> string \<Rightarrow> string \<Rightarrow> (string \<times> string) list" where
  "secrets a repo branch =
     [(''GIT_REPO'', repo),
      (''GIT_TOKEN'', git_token a),
      (''GIT_BRANCH'', branch),
      (''GIT_URL'', git_url a),
      (''PASSWORD'', password a),
      (''WEBDAV_URL'', webdav_url a),
      (''WEBDAV_USER'', webdav_user a),
      (''WEBDAV_PASS'', webdav_pass a),
      (''ACCOUNT_ID'', account_id a),
      (''ACCESS_KEY_ID'', access_key_id a),
      (''SECRET_ACCESS_KEY'', secret_access_key a)]"

section \<open>The script\<close>

text \<open>\<^verbatim>\<open>image = args.image or "ghcr.io/zxlwq/music:latest"\<close>\<close>

definition resolved_image :: "args \<Rightarrow> string" where
  "resolved_image a = py_or (image' a) ''ghcr.io/zxlwq/music:latest''"

definition token_empty_message :: string where
  "token_empty_message = ''Token '' @ [CHR 0xE4, CHR 0xB8, CHR 0x8D, CHR 0xE8, CHR 0x83, CHR 0xBD, CHR 0xE4, CHR 0xB8, CHR 0xBA,
      CHR 0xE7, CHR 0xA9, CHR 0xBA]"

definition no_name_message :: string where
  "no_name_message =
     [CHR 0xE6, CHR 0x9C, CHR 0xAA, CHR 0xE8, CHR 0x8E, CHR 0xB7, CHR 0xE5, CHR 0x8F, CHR 0x96,
      CHR 0xE5, CHR 0x88, CHR 0xB0, CHR 0xE7, CHR 0x94, CHR 0xA8, CHR 0xE6, CHR 0x88, CHR 0xB7,
      CHR 0xE5, CHR 0x90, CHR 0x8D, CHR 0xE4, CHR 0xBF, CHR 0xA1, CHR 0xE6, CHR 0x81, CHR 0xAF,
      CHR 0xEF, CHR 0xBC, CHR 0x8C, CHR 0xE7, CHR 0xA8, CHR 0x8B, CHR 0xE5, CHR 0xBA, CHR 0x8F,
      CHR 0xE9, CHR 0x80, CHR 0x80, CHR 0xE5, CHR 0x87, CHR 0xBA, CHR 0xE3, CHR 0x80, CHR 0x82]"

definition success_message :: "string \<Rightarrow> string" where
  "success_message repoid =
     ''Space '' @ [CHR 0xE5, CHR 0x88, CHR 0x9B, CHR 0xE5, CHR 0xBB, CHR 0xBA, CHR 0xE6, CHR 0x88, CHR 0x90,
      CHR 0xE5, CHR 0x8A, CHR 0x9F] @ '': '' @ repoid"

text \<open>
  The body under \<^verbatim>\<open>if __name__ == "__main__"\<close>, statement by statement. Each call to
  the client is recorded before its answer is looked at, so a call that raises is in the
  trace and nothing after it is.
\<close>

definition main :: "args \<Rightarrow> platform \<Rightarrow> rng \<Rightarrow> event list \<times> outcome" where
  "main a w g =
     (let token = token a in
      if token = [] then ([Print token_empty_message], SysExit 1)
      else
        (case HfApi_result w of
          Some e \<Rightarrow> ([HfApi token], Uncaught e)
        | None \<Rightarrow>
        (case whoami_result w of
          Inl e \<Rightarrow> ([HfApi token, Whoami], Uncaught e)
        | Inr user_info \<Rightarrow>
        (case user_info ''name'' of
          None \<Rightarrow> ([HfApi token, Whoami, Print no_name_message], SysExit 1)
        | Some userid \<Rightarrow>
          if userid = [] then ([HfApi token, Whoami, Print no_name_message], SysExit 1)
          else
            let image = resolved_image a;
                git_repo = py_or_opt (git_repo a) ''zxlwq/music'';
                git_branch = py_or_opt (git_branch a) ''main'';
                (space_name, g') = generate_random_string 2 g;
                repoid = userid @ ''/'' @ space_name;
                readme_obj = readme_content space_name;
                create = CreateRepo repoid ''space'' ''docker'' (secrets a git_repo git_branch);
                upload_readme = UploadFile repoid ''README.md'' readme_obj ''space'';
                upload_dockerfile =
                  UploadFile repoid ''Dockerfile'' (dockerfile_content image) ''space'';
                calls = [HfApi token, Whoami, create]
            in
              (case create_repo_result w of
                Some e \<Rightarrow> (calls, Uncaught e)
              | None \<Rightarrow>
              (case upload_file_result w ''README.md'' of
                Some e \<Rightarrow> (calls @ [upload_readme], Uncaught e)
              | None \<Rightarrow>
              (case upload_file_result w ''Dockerfile'' of
                Some e \<Rightarrow> (calls @ [upload_readme, upload_dockerfile], Uncaught e)
              | None \<Rightarrow>
                (calls @ [upload_readme, upload_dockerfile, Print (success_message repoid)],
                 Finished))))))))"

text \<open>
  A run of the script: the arguments are parsed at module level, before the body.
\<close>

definition run :: "cmdline \<Rightarrow> platform \<Rightarrow> rng \<Rightarrow> event list \<times> outcome" where
  "run cli w g =
     (case parse_args cli of
        Inl missing \<Rightarrow> ([ArgparseError missing], SysExit 2)
      | Inr a \<Rightarrow> main a w g)"

section \<open>Reading a trace\<close>



text \<open>The creation calls of a trace: descriptor and secret set of each.\<close>

fun creations :: "event list \<Rightarrow> (string \<times> (string \<times> string) list) list" where
  "creations [] = []"
| "creations (CreateRepo r t s ss # es) = (r, ss) # creations es"
| "creations (e # es) = creations es"

text \<open>The upload calls of a trace: descriptor, path and content of each.\<close>

fun uploads :: "event list \<Rightarrow> (string \<times> string \<times> string) list" where
  "uploads [] = []"
| "uploads (UploadFile r p c t # es) = (r, p, c) # uploads es"
| "uploads (e # es) = uploads es"

text \<open>The contents uploaded to one path.\<close>

definition uploaded :: "string \<Rightarrow> event list \<Rightarrow> string list" where
  "uploaded path tr = map (\<lambda>(r, p, c). c) (filter (\<lambda>(r, p, c). p = path) (uploads tr))"

definition upload_paths :: "event list \<Rightarrow> string list" where
  "upload_paths tr = map (\<lambda>(r, p, c). p) (uploads tr)"

text \<open>The lines printed.\<close>

fun printed :: "event list \<Rightarrow> string list" where
  "printed [] = []"
| "printed (Print s # es) = s # printed es"
| "printed (e # es) = printed es"

section \<open>The manifest as the specification words it\<close>

text \<open>
  Following the specification: a front-matter block is an opening \<^verbatim>\<open>---\<close> line, one
  \<^verbatim>\<open>key: value\<close> line for each key in order, and a closing \<^verbatim>\<open>---\<close> line.
\<close>

definition spec_front_matter :: "(string \<times> string) list \<Rightarrow> string" where
  "spec_front_matter kvs =
     ''---\<newline>'' @ concat (map (\<lambda>(k, v). k @ '': '' @ v @ ''\<newline>'') kvs) @ ''---\<newline>''"

section \<open>Sample inputs\<close>

text \<open>
  The smallest command line that parses, a platform on which every call succeeds and
  the account is \<open>alice\<close>, and a random source. They are the concrete inputs at which
  the theorems below are instantiated.
\<close>

abbreviation minimal_cmdline :: cmdline where
  "minimal_cmdline \<equiv>
     [''--token'' \<mapsto> ''T'', ''--git-token'' \<mapsto> ''G'', ''--password'' \<mapsto> ''P'']"

abbreviation alice_platform :: platform where
  "alice_platform \<equiv>
     \<lparr> HfApi_result = None,
       whoami_result = Inr [''name'' \<mapsto> ''alice''],
       create_repo_result = None,
       upload_file_result = (\<lambda>path. None) \<rparr>"

abbreviation sample_rng :: rng where
  "sample_rng \<equiv> (\<lambda>i. 7 * i + 3)"

section \<open>Properties of the identifier generator\<close>

lemma length_choices: "length (fst (choices p k g)) = k"
  by (induction k arbitrary: g) (auto simp: split_def Let_def)

lemma set_choices: "p \<noteq> [] \<Longrightarrow> set (fst (choices p k g)) \<subseteq> set p"
  by (induction k arbitrary: g) (auto simp: split_def Let_def randbelow_def)

lemma mset_shuffle_loop: "m < length x \<Longrightarrow> mset (fst (shuffle_loop m x g)) = mset x"
proof (induction m arbitrary: x g)
  case 0
  then show ?case by simp
next
  case (Suc m)
  have j: "g 0 mod (Suc m + 1) < length x" using Suc.prems
    by (metis Suc_eq_plus1 less_Suc_eq_le less_le_trans mod_less_divisor not_less zero_less_Suc)
  show ?case using Suc.prems Suc.IH j
    by (simp add: split_def Let_def randbelow_def mset_swap)
qed

lemma mset_shuffle: "mset (fst (shuffle x g)) = mset x"
  by (cases x) (simp_all add: shuffle_def mset_shuffle_loop)

lemma choice_mem: "seq \<noteq> [] \<Longrightarrow> fst (choice seq g) \<in> set seq"
  by (simp add: choice_def randbelow_def split_def)

lemma ascii_letters_nonempty: "ascii_letters \<noteq> []"
  by (simp add: ascii_letters_def ascii_lowercase_def)

lemma mset_generate_random_string:
  "1 \<le> len \<Longrightarrow>
   mset (fst (generate_random_string len g)) =
     mset (fst (choices (ascii_letters @ digits) (nat (len - 1)) (snd (choice ascii_letters g)))
           @ [fst (choice ascii_letters g)])"
  by (simp add: generate_random_string_def split_def Let_def mset_shuffle del: mset_append)

lemma length_generate_random_string:
  assumes "1 \<le> len"
  shows "length (fst (generate_random_string len g)) = nat len"
proof -
  have "length (fst (generate_random_string len g)) =
          length (fst (choices (ascii_letters @ digits) (nat (len - 1))
                         (snd (choice ascii_letters g))) @ [fst (choice ascii_letters g)])"
    using mset_generate_random_string [OF assms] by (rule mset_eq_length)
  then show ?thesis
    using assms by (simp add: length_choices)
qed

lemma set_generate_random_string:
  assumes "1 \<le> len"
  shows "set (fst (generate_random_string len g)) =
           insert (fst (choice ascii_letters g))
             (set (fst (choices (ascii_letters @ digits) (nat (len - 1))
                          (snd (choice ascii_letters g)))))"
  using mset_eq_setD [OF mset_generate_random_string [OF assms, of g]] by simp

lemma generate_random_string_alphabet:
  assumes "1 \<le> len"
  shows "set (fst (generate_random_string len g)) \<subseteq> set (ascii_letters @ digits)"
proof -
  have "fst (choice ascii_letters g) \<in> set ascii_letters"
    by (rule choice_mem [OF ascii_letters_nonempty])
  moreover have "set (fst (choices (ascii_letters @ digits) (nat (len - 1))
                             (snd (choice ascii_letters g)))) \<subseteq> set (ascii_letters @ digits)"
    by (rule set_choices) (simp add: ascii_letters_nonempty)
  ultimately show ?thesis
    unfolding set_generate_random_string [OF assms] by auto
qed

lemma generate_random_string_has_letter:
  assumes "1 \<le> len"
  shows "\<exists>c \<in> set (fst (generate_random_string len g)). c \<in> set ascii_letters"
  unfolding set_generate_random_string [OF assms]
  using choice_mem [OF ascii_letters_nonempty, of g] by blast

lemma generate_random_string_nonpositive:
  assumes "len < 1"
  shows "fst (generate_random_string len g) = ''''"
  using assms by (simp add: generate_random_string_def)

lemma sample_slug: "fst (generate_random_string 2 sample_rng) = ''kd''"
  by code_simp

text \<open>
  Claim C1. For every requested length of at least 1 and every state of the random
  source, \<open>generate_random_string\<close> returns a string of exactly that length, all of
  whose characters are ASCII letters or digits and at least one of which is a letter; for
  a length of 0 or a negative one it returns the empty string.
\<close>

theorem generate_random_string_spec:
  "(1 \<le> len \<longrightarrow>
      length (fst (generate_random_string len g)) = nat len \<and>
      set (fst (generate_random_string len g)) \<subseteq> set (ascii_letters @ digits) \<and>
      (\<exists>c \<in> set (fst (generate_random_string len g)). c \<in> set ascii_letters)) \<and>
   (len < 1 \<longrightarrow> fst (generate_random_string len g) = '''')"
  using length_generate_random_string [of len g] generate_random_string_alphabet [of len g]
    generate_random_string_has_letter [of len g] generate_random_string_nonpositive [of len g]
  by blast

theorem generate_random_string_spec_witness:
  "fst (generate_random_string 2 sample_rng) = ''kd'' \<and>
   length ''kd'' = nat 2 \<and>
   set ''kd'' \<subseteq> set (ascii_letters @ digits) \<and>
   (\<exists>c \<in> set ''kd''. c \<in> set ascii_letters) \<and>
   fst (generate_random_string 0 sample_rng) = '''' \<and>
   fst (generate_random_string (- 3) sample_rng) = ''''"
proof -
  have h2: "(1::int) \<le> 2" and h0: "(0::int) < 1" and h3: "(- 3::int) < 1"
    by simp_all
  show ?thesis
    using generate_random_string_spec [of 2 sample_rng]
          generate_random_string_spec [of 0 sample_rng]
          generate_random_string_spec [of "- 3" sample_rng] h2 h0 h3
    unfolding sample_slug by simp
qed

lemma length_generate_random_string_2: "length (fst (generate_random_string 2 g)) = 2"
  using length_generate_random_string [of 2 g] by simp

section \<open>The shape of a run\<close>

text \<open>
  The body has eight ways to end. Each fixes the trace and the outcome, so every
  property of a run is checked on eight explicit traces.
\<close>

lemma main_shape:
  assumes "main a w g = (tr, out)"
  obtains
    (empty_token) "token a = []" "tr = [Print token_empty_message]" "out = SysExit 1"
  | (HfApi_raises) e where "token a \<noteq> []" "HfApi_result w = Some e"
      "tr = [HfApi (token a)]" "out = Uncaught e"
  | (whoami_raises) e where "token a \<noteq> []" "HfApi_result w = None"
      "whoami_result w = Inl e"
      "tr = [HfApi (token a), Whoami]" "out = Uncaught e"
  | (no_name) ui where "token a \<noteq> []" "HfApi_result w = None"
      "whoami_result w = Inr ui" "ui ''name'' = None \<or> ui ''name'' = Some []"
      "tr = [HfApi (token a), Whoami, Print no_name_message]" "out = SysExit 1"
  | (create_raises) ui userid e where "token a \<noteq> []" "HfApi_result w = None"
      "whoami_result w = Inr ui" "ui ''name'' = Some userid" "userid \<noteq> []"
      "create_repo_result w = Some e"
      "tr = [HfApi (token a), Whoami,
             CreateRepo (userid @ ''/'' @ fst (generate_random_string 2 g)) ''space'' ''docker''
               (secrets a (py_or_opt (git_repo a) ''zxlwq/music'')
                          (py_or_opt (git_branch a) ''main''))]"
      "out = Uncaught e"
  | (readme_raises) ui userid e where "token a \<noteq> []" "HfApi_result w = None"
      "whoami_result w = Inr ui" "ui ''name'' = Some userid" "userid \<noteq> []"
      "create_repo_result w = None" "upload_file_result w ''README.md'' = Some e"
      "tr = [HfApi (token a), Whoami,
             CreateRepo (userid @ ''/'' @ fst (generate_random_string 2 g)) ''space'' ''docker''
               (secrets a (py_or_opt (git_repo a) ''zxlwq/music'')
                          (py_or_opt (git_branch a) ''main'')),
             UploadFile (userid @ ''/'' @ fst (generate_random_string 2 g)) ''README.md''
               (readme_content (fst (generate_random_string 2 g))) ''space'']"
      "out = Uncaught e"
  | (dockerfile_raises) ui userid e where "token a \<noteq> []" "HfApi_result w = None"
      "whoami_result w = Inr ui" "ui ''name'' = Some userid" "userid \<noteq> []"
      "create_repo_result w = None" "upload_file_result w ''README.md'' = None"
      "upload_file_result w ''Dockerfile'' = Some e"
      "tr = [HfApi (token a), Whoami,
             CreateRepo (userid @ ''/'' @ fst (generate_random_string 2 g)) ''space'' ''docker''
               (secrets a (py_or_opt (git_repo a) ''zxlwq/music'')
                          (py_or_opt (git_branch a) ''main'')),
             UploadFile (userid @ ''/'' @ fst (generate_random_string 2 g)) ''README.md''
               (readme_content (fst (generate_random_string 2 g))) ''space'',
             UploadFile (userid @ ''/'' @ fst (generate_random_string 2 g)) ''Dockerfile''
               (dockerfile_content (resolved_image a)) ''space'']"
      "out = Uncaught e"
  | (success) ui userid where "token a \<noteq> []" "HfApi_result w = None"
      "whoami_result w = Inr ui" "ui ''name'' = Some userid" "userid \<noteq> []"
      "create_repo_result w = None" "upload_file_result w ''README.md'' = None"
      "upload_file_result w ''Dockerfile'' = None"
      "tr = [HfApi (token a), Whoami,
             CreateRepo (userid @ ''/'' @ fst (generate_random_string 2 g)) ''space'' ''docker''
               (secrets a (py_or_opt (git_repo a) ''zxlwq/music'')
                          (py_or_opt (git_branch a) ''main'')),
             UploadFile (userid @ ''/'' @ fst (generate_random_string 2 g)) ''README.md''
               (readme_content (fst (generate_random_string 2 g))) ''space'',
             UploadFile (userid @ ''/'' @ fst (generate_random_string 2 g)) ''Dockerfile''
               (dockerfile_content (resolved_image a)) ''space'',
             Print (success_message (userid @ ''/'' @ fst (generate_random_string 2 g)))]"
      "out = Finished"
proof (cases "token a = []")
  case True
  with assms have "tr = [Print token_empty_message]" "out = SysExit 1"
    by (simp_all add: main_def)
  with True show ?thesis by (rule empty_token)
next
  case tok: False
  show ?thesis
  proof (cases "HfApi_result w")
    case (Some e)
    with assms tok have "tr = [HfApi (token a)]" "out = Uncaught e"
      by (simp_all add: main_def Let_def)
    with tok Some show ?thesis by (rule HfApi_raises)
  next
    case h: None
    show ?thesis
    proof (cases "whoami_result w")
      case (Inl e)
      with assms tok h have "tr = [HfApi (token a), Whoami]" "out = Uncaught e"
        by (simp_all add: main_def Let_def)
      with tok h Inl show ?thesis by (rule whoami_raises)
    next
      case ui: (Inr ui)
      show ?thesis
      proof (cases "ui ''name'' = None \<or> ui ''name'' = Some []")
        case True
        with assms tok h ui
        have "tr = [HfApi (token a), Whoami, Print no_name_message]" "out = SysExit 1"
          by (auto simp: main_def Let_def)
        with tok h ui True show ?thesis by (rule no_name)
      next
        case False
        then obtain userid where u: "ui ''name'' = Some userid" "userid \<noteq> []"
          by (cases "ui ''name''") auto
        show ?thesis
        proof (cases "create_repo_result w")
          case (Some e)
          with assms tok h ui u show ?thesis
            by (intro create_raises [of ui userid e])
               (simp_all add: main_def Let_def split_def)
        next
          case c: None
          show ?thesis
          proof (cases "upload_file_result w ''README.md''")
            case (Some e)
            with assms tok h ui u c show ?thesis
              by (intro readme_raises [of ui userid e])
                 (simp_all add: main_def Let_def split_def)
          next
            case r: None
            show ?thesis
            proof (cases "upload_file_result w ''Dockerfile''")
              case (Some e)
              with assms tok h ui u c r show ?thesis
                by (intro dockerfile_raises [of ui userid e])
                   (simp_all add: main_def Let_def split_def)
            next
              case None
              with assms tok h ui u c r show ?thesis
                by (intro success [of ui userid])
                   (simp_all add: main_def Let_def split_def)
            qed
          qed
        qed
      qed
    qed
  qed
qed

lemma parse_args_Inr:
  assumes "parse_args cli = Inr a"
  shows "cli ''--token'' = Some (token a)"
    and "cli ''--git-token'' = Some (git_token a)"
    and "cli ''--password'' = Some (password a)"
    and "image' a = supplied_or cli ''--image'' ''''"
    and "git_url a = supplied_or cli ''--git-url'' ''''"
    and "git_repo a = cli ''--git-repo''"
    and "git_branch a = cli ''--git-branch''"
    and "webdav_url a = supplied_or cli ''--webdav-url'' ''''"
    and "webdav_user a = supplied_or cli ''--webdav-user'' ''''"
    and "webdav_pass a = supplied_or cli ''--webdav-pass'' ''''"
    and "account_id a = supplied_or cli ''--account-id'' ''''"
    and "access_key_id a = supplied_or cli ''--access-key-id'' ''''"
    and "secret_access_key a = supplied_or cli ''--secret-access-key'' ''''"
  using assms by (auto simp: parse_args_def split: option.splits)

lemma parse_args_Inl:
  assumes "parse_args cli = Inl missing"
  shows "missing = filter (\<lambda>opt. cli opt = None) required_options"
    and "cli ''--token'' = None \<or> cli ''--git-token'' = None \<or> cli ''--password'' = None"
  using assms by (auto simp: parse_args_def split: option.splits)

lemma parse_args_no_token:
  assumes "cli ''--token'' = None"
  shows "\<exists>missing. parse_args cli = Inl missing"
  using assms by (simp add: parse_args_def)

lemma run_shape:
  assumes "run cli w g = (tr, out)"
  obtains
    (usage) missing where "parse_args cli = Inl missing"
      "tr = [ArgparseError missing]" "out = SysExit 2"
  | (body) a where "parse_args cli = Inr a" "main a w g = (tr, out)"
  using assms by (cases "parse_args cli") (auto simp: run_def)

lemma success_trace:
  assumes "run cli w g = (tr, Finished)"
  obtains a ui userid where "parse_args cli = Inr a"
    "whoami_result w = Inr ui" "ui ''name'' = Some userid" "userid \<noteq> []"
    "tr = [HfApi (token a), Whoami,
           CreateRepo (userid @ ''/'' @ fst (generate_random_string 2 g)) ''space'' ''docker''
             (secrets a (py_or_opt (git_repo a) ''zxlwq/music'')
                        (py_or_opt (git_branch a) ''main'')),
           UploadFile (userid @ ''/'' @ fst (generate_random_string 2 g)) ''README.md''
             (readme_content (fst (generate_random_string 2 g))) ''space'',
           UploadFile (userid @ ''/'' @ fst (generate_random_string 2 g)) ''Dockerfile''
             (dockerfile_content (resolved_image a)) ''space'',
           Print (success_message (userid @ ''/'' @ fst (generate_random_string 2 g)))]"
  using assms
proof (cases rule: run_shape)
  case (usage missing)
  then show ?thesis by simp
next
  case (body a)
  from body(2) show ?thesis
    by (cases rule: main_shape) (auto intro: that [OF body(1)])
qed

text \<open>The sample run, and the same run on a platform whose creation call raises.\<close>

lemma minimal_run:
  "run minimal_cmdline alice_platform sample_rng =
     ([HfApi ''T'', Whoami,
       CreateRepo ''alice/kd'' ''space'' ''docker''
         [(''GIT_REPO'', ''zxlwq/music''), (''GIT_TOKEN'', ''G''), (''GIT_BRANCH'', ''main''),
          (''GIT_URL'', ''''), (''PASSWORD'', ''P''), (''WEBDAV_URL'', ''''),
          (''WEBDAV_USER'', ''''), (''WEBDAV_PASS'', ''''), (''ACCOUNT_ID'', ''''),
          (''ACCESS_KEY_ID'', ''''), (''SECRET_ACCESS_KEY'', '''')],
       UploadFile ''alice/kd'' ''README.md'' (readme_content ''kd'') ''space'',
       UploadFile ''alice/kd'' ''Dockerfile'' ''FROM ghcr.io/zxlwq/music:latest\<newline>'' ''space'',
       Print (success_message ''alice/kd'')],
      Finished)"
  by (simp add: run_def parse_args_def main_def supplied_or_def sample_slug secrets_def
      py_or_opt_def py_or_def resolved_image_def dockerfile_content_def Let_def split_def)

lemma create_raises_run:
  "run minimal_cmdline
     \<lparr> HfApi_result = None,
       whoami_result = Inr [''name'' \<mapsto> ''alice''],
       create_repo_result = Some (Exc ''HfHubHTTPError''),
       upload_file_result = (\<lambda>path. None) \<rparr>
     sample_rng =
     ([HfApi ''T'', Whoami,
       CreateRepo ''alice/kd'' ''space'' ''docker''
         [(''GIT_REPO'', ''zxlwq/music''), (''GIT_TOKEN'', ''G''), (''GIT_BRANCH'', ''main''),
          (''GIT_URL'', ''''), (''PASSWORD'', ''P''), (''WEBDAV_URL'', ''''),
          (''WEBDAV_USER'', ''''), (''WEBDAV_PASS'', ''''), (''ACCOUNT_ID'', ''''),
          (''ACCESS_KEY_ID'', ''''), (''SECRET_ACCESS_KEY'', '''')]],
      Uncaught (Exc ''HfHubHTTPError''))"
  by (simp add: run_def parse_args_def main_def supplied_or_def sample_slug secrets_def
      py_or_opt_def py_or_def Let_def split_def)

lemma uploaded_Nil [simp]: "uploaded path [] = []"
  by (simp add: uploaded_def)

lemma uploaded_Cons_UploadFile [simp]:
  "uploaded path (UploadFile r p c t # es) =
     (if p = path then c # uploaded path es else uploaded path es)"
  by (simp add: uploaded_def)

lemma uploaded_Cons_other [simp]:
  "uploaded path (Print s # es) = uploaded path es"
  "uploaded path (ArgparseError m # es) = uploaded path es"
  "uploaded path (HfApi tok # es) = uploaded path es"
  "uploaded path (Whoami # es) = uploaded path es"
  "uploaded path (CreateRepo r t s ss # es) = uploaded path es"
  by (simp_all add: uploaded_def)

lemma py_or_opt_explicit:
  "py_or_opt x d = (case x of None \<Rightarrow> d | Some v \<Rightarrow> if v \<noteq> [] then v else d)"
  by (cases x) (simp_all add: py_or_opt_def py_or_def)

lemma resolved_image_cases:
  assumes "parse_args cli = Inr a"
  shows "cli ''--image'' = None \<Longrightarrow> resolved_image a = ''ghcr.io/zxlwq/music:latest''"
    and "cli ''--image'' = Some [] \<Longrightarrow> resolved_image a = ''ghcr.io/zxlwq/music:latest''"
    and "cli ''--image'' = Some s \<Longrightarrow> s \<noteq> [] \<Longrightarrow> resolved_image a = s"
  using parse_args_Inr(4) [OF assms]
  by (simp_all add: resolved_image_def py_or_def supplied_or_def)

lemma readme_content_front_matter:
  "readme_content space_name =
     ''\<newline>'' @
     spec_front_matter
       [(''title'', space_name),
        (''emoji'', [CHR 0xF0, CHR 0x9F, CHR 0x98, CHR 0xBB]),
        (''colorFrom'', ''red''),
        (''colorTo'', ''blue''),
        (''sdk'', ''docker''),
        (''app_port'', ''3000''),
        (''pinned'', ''false'')] @
     ''Check out the configuration reference at https://huggingface.co/docs/hub/spaces-config-reference\<newline>''"
  by (simp add: readme_content_def spec_front_matter_def)

lemma resolved_image_explicit:
  assumes "parse_args cli = Inr a"
  shows "resolved_image a =
           (case cli ''--image'' of None \<Rightarrow> ''ghcr.io/zxlwq/music:latest''
            | Some s \<Rightarrow> if s \<noteq> [] then s else ''ghcr.io/zxlwq/music:latest'')"
  using parse_args_Inr(4) [OF assms]
  by (cases "cli ''--image''") (simp_all add: resolved_image_def py_or_def supplied_or_def)

text \<open>The sample run with an image of its own.\<close>

lemma nginx_run:
  "run (minimal_cmdline(''--image'' \<mapsto> ''nginx:1.27'')) alice_platform sample_rng =
     ([HfApi ''T'', Whoami,
       CreateRepo ''alice/kd'' ''space'' ''docker''
         [(''GIT_REPO'', ''zxlwq/music''), (''GIT_TOKEN'', ''G''), (''GIT_BRANCH'', ''main''),
          (''GIT_URL'', ''''), (''PASSWORD'', ''P''), (''WEBDAV_URL'', ''''),
          (''WEBDAV_USER'', ''''), (''WEBDAV_PASS'', ''''), (''ACCOUNT_ID'', ''''),
          (''ACCESS_KEY_ID'', ''''), (''SECRET_ACCESS_KEY'', '''')],
       UploadFile ''alice/kd'' ''README.md'' (readme_content ''kd'') ''space'',
       UploadFile ''alice/kd'' ''Dockerfile'' ''FROM nginx:1.27\<newline>'' ''space'',
       Print (success_message ''alice/kd'')],
      Finished)"
  by (simp add: run_def parse_args_def main_def supplied_or_def sample_slug secrets_def
      py_or_opt_def py_or_def resolved_image_def dockerfile_content_def Let_def split_def)

section \<open>The secret set\<close>

text \<open>
  Claim C2. On a successful run the creation call, the only one, attaches the eleven
  fixed keys in their order: \<open>PASSWORD\<close> is the supplied password, \<open>GIT_TOKEN\<close> the
  supplied git token, \<open>GIT_REPO\<close> and \<open>GIT_BRANCH\<close> the supplied value when it is not
  empty and otherwise the fixed default (\<open>zxlwq/music\<close>, \<open>main\<close>), and each of the
  others the supplied value, or the empty string when the option is absent.
\<close>

theorem secret_set_on_success:
  assumes "run cli w g = (tr, Finished)"
  shows "\<exists>repoid p gt.
           cli ''--password'' = Some p \<and> cli ''--git-token'' = Some gt \<and>
           creations tr =
             [(repoid,
               [(''GIT_REPO'',
                   (case cli ''--git-repo'' of None \<Rightarrow> ''zxlwq/music''
                    | Some v \<Rightarrow> if v \<noteq> [] then v else ''zxlwq/music'')),
                (''GIT_TOKEN'', gt),
                (''GIT_BRANCH'',
                   (case cli ''--git-branch'' of None \<Rightarrow> ''main''
                    | Some v \<Rightarrow> if v \<noteq> [] then v else ''main'')),
                (''GIT_URL'', (case cli ''--git-url'' of None \<Rightarrow> '''' | Some v \<Rightarrow> v)),
                (''PASSWORD'', p),
                (''WEBDAV_URL'', (case cli ''--webdav-url'' of None \<Rightarrow> '''' | Some v \<Rightarrow> v)),
                (''WEBDAV_USER'', (case cli ''--webdav-user'' of None \<Rightarrow> '''' | Some v \<Rightarrow> v)),
                (''WEBDAV_PASS'', (case cli ''--webdav-pass'' of None \<Rightarrow> '''' | Some v \<Rightarrow> v)),
                (''ACCOUNT_ID'', (case cli ''--account-id'' of None \<Rightarrow> '''' | Some v \<Rightarrow> v)),
                (''ACCESS_KEY_ID'',
                   (case cli ''--access-key-id'' of None \<Rightarrow> '''' | Some v \<Rightarrow> v)),
                (''SECRET_ACCESS_KEY'',
                   (case cli ''--secret-access-key'' of None \<Rightarrow> '''' | Some v \<Rightarrow> v))])]"
  using assms
proof (cases rule: success_trace)
  case (1 a ui userid)
  have "creations tr =
          [(userid @ ''/'' @ fst (generate_random_string 2 g),
            secrets a (py_or_opt (git_repo a) ''zxlwq/music'')
                      (py_or_opt (git_branch a) ''main''))]"
    by (simp add: 1(5))
  then show ?thesis
    using parse_args_Inr [OF 1(1)]
    by (simp add: secrets_def py_or_opt_explicit supplied_or_def)
qed

theorem secret_set_on_success_witness:
  "snd (run minimal_cmdline alice_platform sample_rng) = Finished \<and>
   minimal_cmdline ''--password'' = Some ''P'' \<and>
   minimal_cmdline ''--git-token'' = Some ''G'' \<and>
   creations (fst (run minimal_cmdline alice_platform sample_rng)) =
     [(''alice/kd'',
       [(''GIT_REPO'', ''zxlwq/music''), (''GIT_TOKEN'', ''G''), (''GIT_BRANCH'', ''main''),
        (''GIT_URL'', ''''), (''PASSWORD'', ''P''), (''WEBDAV_URL'', ''''),
        (''WEBDAV_USER'', ''''), (''WEBDAV_PASS'', ''''), (''ACCOUNT_ID'', ''''),
        (''ACCESS_KEY_ID'', ''''), (''SECRET_ACCESS_KEY'', '''')])]"
  using secret_set_on_success [OF minimal_run]
  by (simp add: minimal_run)

section \<open>The deployment descriptor\<close>

text \<open>
  Claim C3. In every run the slug is the one string that \<open>generate_random_string 2\<close>
  returns on the initial random source, and it has two characters. Every creation and
  upload call of the run has as its target the account name of the identity response,
  a slash and that slug. A run that finishes makes one creation call and two upload
  calls, and its last action is to print the status line: the fixed success text, a
  colon, a space and the descriptor, so the descriptor is what the line ends with.
\<close>

theorem descriptor_of_run:
  assumes "run cli w g = (tr, out)"
  shows "length (fst (generate_random_string 2 g)) = 2 \<and>
         (\<forall>r \<in> set (map fst (creations tr) @ map fst (uploads tr)).
            \<exists>ui userid. whoami_result w = Inr ui \<and> ui ''name'' = Some userid \<and>
              r = userid @ ''/'' @ fst (generate_random_string 2 g)) \<and>
         (out = Finished \<longrightarrow>
            (\<exists>ui userid. whoami_result w = Inr ui \<and> ui ''name'' = Some userid \<and>
               map fst (creations tr) = [userid @ ''/'' @ fst (generate_random_string 2 g)] \<and>
               map fst (uploads tr) =
                 [userid @ ''/'' @ fst (generate_random_string 2 g),
                  userid @ ''/'' @ fst (generate_random_string 2 g)] \<and>
               last tr =
                 Print (success_message (userid @ ''/'' @ fst (generate_random_string 2 g))) \<and>
               last tr =
                 Print (''Space '' @
                        [CHR 0xE5, CHR 0x88, CHR 0x9B, CHR 0xE5, CHR 0xBB, CHR 0xBA,
                         CHR 0xE6, CHR 0x88, CHR 0x90, CHR 0xE5, CHR 0x8A, CHR 0x9F] @
                        '': '' @ userid @ ''/'' @ fst (generate_random_string 2 g)) \<and>
               printed tr =
                 [''Space '' @
                  [CHR 0xE5, CHR 0x88, CHR 0x9B, CHR 0xE5, CHR 0xBB, CHR 0xBA,
                   CHR 0xE6, CHR 0x88, CHR 0x90, CHR 0xE5, CHR 0x8A, CHR 0x9F] @
                  '': '' @ userid @ ''/'' @ fst (generate_random_string 2 g)]))"
  using assms
proof (cases rule: run_shape)
  case (usage missing)
  then show ?thesis by (simp add: length_generate_random_string_2)
next
  case (body a)
  from body(2) show ?thesis
    by (cases rule: main_shape)
       (simp_all add: length_generate_random_string_2 success_message_def)
qed

theorem descriptor_of_run_witness:
  "fst (generate_random_string 2 sample_rng) = ''kd'' \<and>
   creations (fst (run minimal_cmdline alice_platform sample_rng)) \<noteq> [] \<and>
   map fst (creations (fst (run minimal_cmdline alice_platform sample_rng))) @
   map fst (uploads (fst (run minimal_cmdline alice_platform sample_rng))) =
     [''alice/kd'', ''alice/kd'', ''alice/kd''] \<and>
   snd (run minimal_cmdline alice_platform sample_rng) = Finished \<and>
   last (fst (run minimal_cmdline alice_platform sample_rng)) =
     Print (''Space '' @
            [CHR 0xE5, CHR 0x88, CHR 0x9B, CHR 0xE5, CHR 0xBB, CHR 0xBA,
             CHR 0xE6, CHR 0x88, CHR 0x90, CHR 0xE5, CHR 0x8A, CHR 0x9F] @
            '': alice/kd'') \<and>
   printed (fst (run minimal_cmdline alice_platform sample_rng)) =
     [''Space '' @
      [CHR 0xE5, CHR 0x88, CHR 0x9B, CHR 0xE5, CHR 0xBB, CHR 0xBA,
       CHR 0xE6, CHR 0x88, CHR 0x90, CHR 0xE5, CHR 0x8A, CHR 0x9F] @
      '': alice/kd'']"
  using descriptor_of_run [OF minimal_run] sample_slug
  by (simp add: minimal_run)

section \<open>The uploaded files\<close>

text \<open>
  Claim C4, as stated, fails in its general half: an image option whose value holds a
  newline makes the uploaded Dockerfile two lines, not the single line of the claim.
\<close>

theorem dockerfile_two_lines_counterexample:
  "(minimal_cmdline(''--image'' \<mapsto> ''a\<newline>RUN x'')) ''--image'' = Some ''a\<newline>RUN x'' \<and>
   snd (run (minimal_cmdline(''--image'' \<mapsto> ''a\<newline>RUN x'')) alice_platform sample_rng) =
     Finished \<and>
   uploaded ''Dockerfile''
     (fst (run (minimal_cmdline(''--image'' \<mapsto> ''a\<newline>RUN x'')) alice_platform sample_rng)) =
     [''FROM a'' @ ''\<newline>'' @ ''RUN x'' @ ''\<newline>''] \<and>
   count_list (''FROM a'' @ ''\<newline>'' @ ''RUN x'' @ ''\<newline>'') (CHR ''\<newline>'') = 2"
  by (simp add: run_def parse_args_def main_def supplied_or_def sample_slug
      resolved_image_def py_or_def dockerfile_content_def Let_def split_def)

text \<open>
  Claim C4, amended. In every run, a Dockerfile that is uploaded is the text \<open>FROM\<close>, a
  space, the resolved image and a newline, where the resolved image is the value of the
  image option when one is supplied and not empty, and \<open>ghcr.io/zxlwq/music:latest\<close>
  otherwise. When no image option is given the file is the one line
  \<open>FROM ghcr.io/zxlwq/music:latest\<close>; in general it is the single line
  \<open>FROM <resolved image>\<close> whenever the resolved image holds no newline: the newline
  that ends the line is then the only one of the file. A run that finishes uploads
  exactly one Dockerfile.
\<close>

theorem dockerfile_of_run:
  assumes "run cli w g = (tr, out)"
  shows "(\<forall>c \<in> set (uploaded ''Dockerfile'' tr).
            (\<exists>a. parse_args cli = Inr a \<and> c = ''FROM '' @ resolved_image a @ ''\<newline>'') \<and>
            c = ''FROM '' @
                (case cli ''--image'' of None \<Rightarrow> ''ghcr.io/zxlwq/music:latest''
                 | Some s \<Rightarrow> if s \<noteq> [] then s else ''ghcr.io/zxlwq/music:latest'') @
                ''\<newline>'' \<and>
            (cli ''--image'' = None \<longrightarrow>
               c = ''FROM ghcr.io/zxlwq/music:latest'' @ ''\<newline>'' \<and>
               CHR ''\<newline>'' \<notin> set ''FROM ghcr.io/zxlwq/music:latest'' \<and>
               count_list c (CHR ''\<newline>'') = 1) \<and>
            (\<forall>s. cli ''--image'' = Some s \<and> s \<noteq> [] \<and> CHR ''\<newline>'' \<notin> set s \<longrightarrow>
               c = (''FROM '' @ s) @ ''\<newline>'' \<and>
               CHR ''\<newline>'' \<notin> set (''FROM '' @ s) \<and>
               count_list c (CHR ''\<newline>'') = 1)) \<and>
         (out = Finished \<longrightarrow> length (uploaded ''Dockerfile'' tr) = 1)"
  using assms
proof (cases rule: run_shape)
  case (usage missing)
  then show ?thesis by simp
next
  case (body a)
  let ?img = "case cli ''--image'' of None \<Rightarrow> ''ghcr.io/zxlwq/music:latest''
              | Some s \<Rightarrow> if s \<noteq> [] then s else ''ghcr.io/zxlwq/music:latest''"
  have img: "resolved_image a = ?img"
    by (rule resolved_image_explicit [OF body(1)])
  have one: "count_list ((''FROM '' @ s) @ ''\<newline>'') (CHR ''\<newline>'') = 1"
    if "CHR ''\<newline>'' \<notin> set s" for s
    using that by (simp add: count_list_0_iff)
  have up: "uploaded ''Dockerfile'' tr = [] \<or>
            uploaded ''Dockerfile'' tr = [''FROM '' @ resolved_image a @ ''\<newline>'']"
    using body(2) by (cases rule: main_shape) (simp_all add: dockerfile_content_def)
  have fin: "out = Finished \<longrightarrow> length (uploaded ''Dockerfile'' tr) = 1"
    using body(2) by (cases rule: main_shape) simp_all
  have each: "(\<exists>a. parse_args cli = Inr a \<and> c = ''FROM '' @ resolved_image a @ ''\<newline>'') \<and>
              c = ''FROM '' @ ?img @ ''\<newline>'' \<and>
              (cli ''--image'' = None \<longrightarrow>
                 c = ''FROM ghcr.io/zxlwq/music:latest'' @ ''\<newline>'' \<and>
                 CHR ''\<newline>'' \<notin> set ''FROM ghcr.io/zxlwq/music:latest'' \<and>
                 count_list c (CHR ''\<newline>'') = 1) \<and>
              (\<forall>s. cli ''--image'' = Some s \<and> s \<noteq> [] \<and> CHR ''\<newline>'' \<notin> set s \<longrightarrow>
                 c = (''FROM '' @ s) @ ''\<newline>'' \<and>
                 CHR ''\<newline>'' \<notin> set (''FROM '' @ s) \<and>
                 count_list c (CHR ''\<newline>'') = 1)"
    if c: "c \<in> set (uploaded ''Dockerfile'' tr)" for c
  proof -
    have c_res: "c = ''FROM '' @ resolved_image a @ ''\<newline>''"
      using up c by auto
    have c_img: "c = ''FROM '' @ ?img @ ''\<newline>''"
      using c_res by (simp only: img)
    have first: "\<exists>a. parse_args cli = Inr a \<and> c = ''FROM '' @ resolved_image a @ ''\<newline>''"
      using body(1) c_res by blast
    have none: "cli ''--image'' = None \<longrightarrow>
                 c = ''FROM ghcr.io/zxlwq/music:latest'' @ ''\<newline>'' \<and>
                 CHR ''\<newline>'' \<notin> set ''FROM ghcr.io/zxlwq/music:latest'' \<and>
                 count_list c (CHR ''\<newline>'') = 1"
    proof
      assume n: "cli ''--image'' = None"
      have "c = ''FROM ghcr.io/zxlwq/music:latest'' @ ''\<newline>''"
        using c_img n by simp
      then show "c = ''FROM ghcr.io/zxlwq/music:latest'' @ ''\<newline>'' \<and>
                 CHR ''\<newline>'' \<notin> set ''FROM ghcr.io/zxlwq/music:latest'' \<and>
                 count_list c (CHR ''\<newline>'') = 1"
        by simp
    qed
    have some: "\<forall>s. cli ''--image'' = Some s \<and> s \<noteq> [] \<and> CHR ''\<newline>'' \<notin> set s \<longrightarrow>
                 c = (''FROM '' @ s) @ ''\<newline>'' \<and>
                 CHR ''\<newline>'' \<notin> set (''FROM '' @ s) \<and>
                 count_list c (CHR ''\<newline>'') = 1"
    proof (intro allI impI)
      fix s
      assume s: "cli ''--image'' = Some s \<and> s \<noteq> [] \<and> CHR ''\<newline>'' \<notin> set s"
      have eq: "c = (''FROM '' @ s) @ ''\<newline>''"
        using c_img s by simp
      have nl: "CHR ''\<newline>'' \<notin> set (''FROM '' @ s)"
        using s by simp
      have "count_list c (CHR ''\<newline>'') = 1"
        unfolding eq using s by (intro one) blast
      with eq nl show "c = (''FROM '' @ s) @ ''\<newline>'' \<and>
                       CHR ''\<newline>'' \<notin> set (''FROM '' @ s) \<and>
                       count_list c (CHR ''\<newline>'') = 1"
        by blast
    qed
    from first c_img none some show ?thesis by blast
  qed
  from each fin show ?thesis by blast
qed

theorem dockerfile_of_run_witness:
  "minimal_cmdline ''--image'' = None \<and>
   snd (run minimal_cmdline alice_platform sample_rng) = Finished \<and>
   uploaded ''Dockerfile'' (fst (run minimal_cmdline alice_platform sample_rng)) =
     [''FROM ghcr.io/zxlwq/music:latest\<newline>''] \<and>
   (minimal_cmdline(''--image'' \<mapsto> ''nginx:1.27'')) ''--image'' = Some ''nginx:1.27'' \<and>
   CHR ''\<newline>'' \<notin> set ''nginx:1.27'' \<and>
   snd (run (minimal_cmdline(''--image'' \<mapsto> ''nginx:1.27'')) alice_platform sample_rng) =
     Finished \<and>
   uploaded ''Dockerfile''
     (fst (run (minimal_cmdline(''--image'' \<mapsto> ''nginx:1.27'')) alice_platform sample_rng)) =
     [''FROM nginx:1.27\<newline>''] \<and>
   count_list ''FROM nginx:1.27\<newline>'' (CHR ''\<newline>'') = 1"
  using dockerfile_of_run [OF minimal_run] dockerfile_of_run [OF nginx_run]
  by (simp add: minimal_run nginx_run)

text \<open>
  Claim C5. In every run, a \<open>README.md\<close> that is uploaded is, after one leading newline,
  the front-matter block with exactly the keys \<open>title\<close>, \<open>emoji\<close>, \<open>colorFrom\<close>,
  \<open>colorTo\<close>, \<open>sdk\<close>, \<open>app_port\<close> and \<open>pinned\<close> in this order, where \<open>title\<close> is the
  generated slug, \<open>sdk\<close> is \<open>docker\<close>, \<open>app_port\<close> is \<open>3000\<close> and \<open>pinned\<close> is
  \<open>false\<close>, followed by the documentation link line. A run that finishes uploads exactly
  one \<open>README.md\<close>.
\<close>

theorem readme_of_run:
  assumes "run cli w g = (tr, out)"
  shows "(\<forall>c \<in> set (uploaded ''README.md'' tr).
            c = ''\<newline>'' @
                spec_front_matter
                  [(''title'', fst (generate_random_string 2 g)),
                   (''emoji'', [CHR 0xF0, CHR 0x9F, CHR 0x98, CHR 0xBB]),
                   (''colorFrom'', ''red''),
                   (''colorTo'', ''blue''),
                   (''sdk'', ''docker''),
                   (''app_port'', ''3000''),
                   (''pinned'', ''false'')] @
                ''Check out the configuration reference at https://huggingface.co/docs/hub/spaces-config-reference\<newline>'') \<and>
         (out = Finished \<longrightarrow> length (uploaded ''README.md'' tr) = 1)"
  using assms
proof (cases rule: run_shape)
  case (usage missing)
  then show ?thesis by simp
next
  case (body a)
  from body(2) show ?thesis
    by (cases rule: main_shape) (simp_all add: readme_content_front_matter)
qed

theorem readme_of_run_witness:
  "snd (run minimal_cmdline alice_platform sample_rng) = Finished \<and>
   fst (generate_random_string 2 sample_rng) = ''kd'' \<and>
   uploaded ''README.md'' (fst (run minimal_cmdline alice_platform sample_rng)) =
     [''\<newline>---\<newline>title: kd\<newline>emoji: '' @ [CHR 0xF0, CHR 0x9F, CHR 0x98, CHR 0xBB] @
      ''\<newline>colorFrom: red\<newline>colorTo: blue\<newline>sdk: docker\<newline>app_port: 3000\<newline>pinned: false\<newline>---\<newline>'' @
      ''Check out the configuration reference at https://huggingface.co/docs/hub/spaces-config-reference\<newline>'']"
  using readme_of_run [OF minimal_run] sample_slug
  by (simp add: minimal_run spec_front_matter_def)

section \<open>Early exits and the order of the calls\<close>



text \<open>
  Claim C7. When the identity response has no \<open>name\<close> field or an empty one, the run
  exits with a non-zero status and makes no creation call and no upload call. If the
  lookup was reached, the run prints the diagnostic and exits with status 1.
\<close>

theorem no_account_name_aborts:
  assumes "whoami_result w = Inr ui"
    and "ui ''name'' = None \<or> ui ''name'' = Some ''''"
    and "run cli w g = (tr, out)"
  shows "exit_status out \<noteq> 0 \<and> creations tr = [] \<and> uploads tr = [] \<and>
         (Whoami \<in> set tr \<longrightarrow> out = SysExit 1 \<and> printed tr = [no_name_message])"
  using assms(3)
proof (cases rule: run_shape)
  case (usage missing)
  then show ?thesis by simp
next
  case (body a)
  from body(2) show ?thesis
    using assms(1,2) by (cases rule: main_shape) auto
qed

theorem no_account_name_aborts_witness:
  "run minimal_cmdline
     \<lparr> HfApi_result = None, whoami_result = Inr [''name'' \<mapsto> ''''],
       create_repo_result = None, upload_file_result = (\<lambda>path. None) \<rparr> sample_rng =
     ([HfApi ''T'', Whoami, Print no_name_message], SysExit 1) \<and>
   run minimal_cmdline
     \<lparr> HfApi_result = None, whoami_result = Inr Map.empty,
       create_repo_result = None, upload_file_result = (\<lambda>path. None) \<rparr> sample_rng =
     ([HfApi ''T'', Whoami, Print no_name_message], SysExit 1) \<and>
   exit_status (SysExit 1) \<noteq> 0 \<and>
   creations [HfApi ''T'', Whoami, Print no_name_message] = [] \<and>
   uploads [HfApi ''T'', Whoami, Print no_name_message] = [] \<and>
   printed [HfApi ''T'', Whoami, Print no_name_message] = [no_name_message]"
proof -
  let ?w = "\<lparr> HfApi_result = None, whoami_result = Inr [''name'' \<mapsto> ''''],
       create_repo_result = None, upload_file_result = (\<lambda>path. None) \<rparr>"
  let ?w' = "\<lparr> HfApi_result = None, whoami_result = Inr Map.empty,
       create_repo_result = None, upload_file_result = (\<lambda>path. None) \<rparr>"
  have r: "run minimal_cmdline ?w sample_rng =
             ([HfApi ''T'', Whoami, Print no_name_message], SysExit 1)"
    by (simp add: run_def parse_args_def main_def supplied_or_def)
  have r': "run minimal_cmdline ?w' sample_rng =
             ([HfApi ''T'', Whoami, Print no_name_message], SysExit 1)"
    by (simp add: run_def parse_args_def main_def supplied_or_def)
  have w: "whoami_result ?w = Inr [''name'' \<mapsto> '''']"
    and w': "whoami_result ?w' = Inr Map.empty"
    by simp_all
  have n: "[''name'' \<mapsto> ''''] ''name'' = None \<or> [''name'' \<mapsto> ''''] ''name'' = Some ''''"
    and n': "(Map.empty :: string \<rightharpoonup> string) ''name'' = None \<or>
             (Map.empty :: string \<rightharpoonup> string) ''name'' = Some ''''"
    by simp_all
  show ?thesis
    using no_account_name_aborts [OF w n r] no_account_name_aborts [OF w' n' r'] r r'
    by simp
qed

text \<open>
  Claim C8. In every run, if the creation call raises there is no upload call; every
  upload call of the trace comes after a creation call, which has returned; and the
  paths uploaded are, in order, nothing, \<open>README.md\<close> alone, or \<open>README.md\<close> and then
  \<open>Dockerfile\<close>.
\<close>

theorem uploads_follow_creation:
  assumes "run cli w g = (tr, out)"
  shows "(create_repo_result w \<noteq> None \<longrightarrow> uploads tr = []) \<and>
         (\<forall>pre r p c t post. tr = pre @ UploadFile r p c t # post \<longrightarrow>
            creations pre \<noteq> [] \<and> create_repo_result w = None) \<and>
         (upload_paths tr = [] \<or> upload_paths tr = [''README.md''] \<or>
          upload_paths tr = [''README.md'', ''Dockerfile''])"
  using assms
proof (cases rule: run_shape)
  case (usage missing)
  then show ?thesis
    by (auto simp: upload_paths_def append_eq_Cons_conv Cons_eq_append_conv)
next
  case (body a)
  from body(2) show ?thesis
    by (cases rule: main_shape)
       (auto simp: upload_paths_def append_eq_Cons_conv Cons_eq_append_conv)
qed

theorem uploads_follow_creation_witness:
  "create_repo_result
     \<lparr> HfApi_result = None,
       whoami_result = Inr [''name'' \<mapsto> ''alice''],
       create_repo_result = Some (Exc ''HfHubHTTPError''),
       upload_file_result = (\<lambda>path. None) \<rparr> \<noteq> None \<and>
   uploads (fst (run minimal_cmdline
     \<lparr> HfApi_result = None,
       whoami_result = Inr [''name'' \<mapsto> ''alice''],
       create_repo_result = Some (Exc ''HfHubHTTPError''),
       upload_file_result = (\<lambda>path. None) \<rparr>
     sample_rng)) = [] \<and>
   upload_paths (fst (run minimal_cmdline alice_platform sample_rng)) =
     [''README.md'', ''Dockerfile''] \<and>
   creations (take 3 (fst (run minimal_cmdline alice_platform sample_rng))) \<noteq> [] \<and>
   (\<exists>r p c t post.
      fst (run minimal_cmdline alice_platform sample_rng) =
        take 3 (fst (run minimal_cmdline alice_platform sample_rng)) @
        UploadFile r p c t # post)"
  using uploads_follow_creation [OF create_raises_run]
        uploads_follow_creation [OF minimal_run]
  by (simp add: create_raises_run minimal_run upload_paths_def)

section \<open>Image resolution\<close>

text \<open>
  Claim C9, as stated, fails: an image option supplied with the empty string does not
  resolve to the empty string but to the default.
\<close>

theorem explicit_empty_image_counterexample:
  "(minimal_cmdline(''--image'' \<mapsto> '''')) ''--image'' = Some '''' \<and>
   parse_args (minimal_cmdline(''--image'' \<mapsto> '''')) =
     Inr \<lparr> token = ''T'', image' = '''', git_url = '''', git_repo = None, git_branch = None,
           git_token = ''G'', password = ''P'', webdav_url = '''', webdav_user = '''',
           webdav_pass = '''', account_id = '''', access_key_id = '''',
           secret_access_key = '''' \<rparr> \<and>
   resolved_image
     \<lparr> token = ''T'', image' = '''', git_url = '''', git_repo = None, git_branch = None,
       git_token = ''G'', password = ''P'', webdav_url = '''', webdav_user = '''',
       webdav_pass = '''', account_id = '''', access_key_id = '''',
       secret_access_key = '''' \<rparr> = ''ghcr.io/zxlwq/music:latest'' \<and>
   ''ghcr.io/zxlwq/music:latest'' \<noteq> ''''"
  by (simp add: parse_args_def supplied_or_def resolved_image_def py_or_def)

text \<open>
  Claim C9, amended. With no image option, or with one supplied as the empty string, the
  resolved image is the fixed default \<open>ghcr.io/zxlwq/music:latest\<close>; with an image
  option supplied as a non-empty string the resolved image is exactly that string.
\<close>

theorem image_resolution:
  assumes "parse_args cli = Inr a"
  shows "(cli ''--image'' = None \<longrightarrow> resolved_image a = ''ghcr.io/zxlwq/music:latest'') \<and>
         (cli ''--image'' = Some '''' \<longrightarrow> resolved_image a = ''ghcr.io/zxlwq/music:latest'') \<and>
         (\<forall>s. cli ''--image'' = Some s \<and> s \<noteq> '''' \<longrightarrow> resolved_image a = s)"
  using resolved_image_cases [OF assms] by blast

theorem image_resolution_witness:
  "parse_args (minimal_cmdline(''--image'' \<mapsto> ''nginx:1.27'')) =
     Inr \<lparr> token = ''T'', image' = ''nginx:1.27'', git_url = '''', git_repo = None,
           git_branch = None, git_token = ''G'', password = ''P'', webdav_url = '''',
           webdav_user = '''', webdav_pass = '''', account_id = '''', access_key_id = '''',
           secret_access_key = '''' \<rparr> \<and>
   resolved_image
     \<lparr> token = ''T'', image' = ''nginx:1.27'', git_url = '''', git_repo = None,
       git_branch = None, git_token = ''G'', password = ''P'', webdav_url = '''',
       webdav_user = '''', webdav_pass = '''', account_id = '''', access_key_id = '''',
       secret_access_key = '''' \<rparr> = ''nginx:1.27'' \<and>
   parse_args minimal_cmdline =
     Inr \<lparr> token = ''T'', image' = '''', git_url = '''', git_repo = None,
           git_branch = None, git_token = ''G'', password = ''P'', webdav_url = '''',
           webdav_user = '''', webdav_pass = '''', account_id = '''', access_key_id = '''',
           secret_access_key = '''' \<rparr> \<and>
   resolved_image
     \<lparr> token = ''T'', image' = '''', git_url = '''', git_repo = None,
       git_branch = None, git_token = ''G'', password = ''P'', webdav_url = '''',
       webdav_user = '''', webdav_pass = '''', account_id = '''', access_key_id = '''',
       secret_access_key = '''' \<rparr> = ''ghcr.io/zxlwq/music:latest''"
proof -
  have p1: "parse_args (minimal_cmdline(''--image'' \<mapsto> ''nginx:1.27'')) =
     Inr \<lparr> token = ''T'', image' = ''nginx:1.27'', git_url = '''', git_repo = None,
           git_branch = None, git_token = ''G'', password = ''P'', webdav_url = '''',
           webdav_user = '''', webdav_pass = '''', account_id = '''', access_key_id = '''',
           secret_access_key = '''' \<rparr>"
    by (simp add: parse_args_def supplied_or_def)
  have p2: "parse_args minimal_cmdline =
     Inr \<lparr> token = ''T'', image' = '''', git_url = '''', git_repo = None,
           git_branch = None, git_token = ''G'', password = ''P'', webdav_url = '''',
           webdav_user = '''', webdav_pass = '''', account_id = '''', access_key_id = '''',
           secret_access_key = '''' \<rparr>"
    by (simp add: parse_args_def supplied_or_def)
  show ?thesis
    using image_resolution [OF p1] image_resolution [OF p2] p1 p2 by simp
qed

section \<open>The first byte of the manifest\<close>

text \<open>
  Claim C10. In every run, a \<open>README.md\<close> that is uploaded begins with a newline
  character, and the opening \<open>---\<close> line comes after it: the first byte of the file is
  the newline, not a dash. A run that finishes has uploaded such a file.
\<close>

theorem readme_starts_with_newline:
  assumes "run cli w g = (tr, out)"
  shows "(\<forall>c \<in> set (uploaded ''README.md'' tr).
            (\<exists>rest. c = CHR ''\<newline>'' # ''---\<newline>'' @ rest) \<and>
            hd c = CHR ''\<newline>'' \<and> hd c \<noteq> CHR ''-'') \<and>
         (out = Finished \<longrightarrow> uploaded ''README.md'' tr \<noteq> [])"
  using assms
proof (cases rule: run_shape)
  case (usage missing)
  then show ?thesis by simp
next
  case (body a)
  from body(2) show ?thesis
    by (cases rule: main_shape) (simp_all add: readme_content_def)
qed

theorem readme_starts_with_newline_witness:
  "snd (run minimal_cmdline alice_platform sample_rng) = Finished \<and>
   uploaded ''README.md'' (fst (run minimal_cmdline alice_platform sample_rng)) =
     [readme_content ''kd''] \<and>
   hd (readme_content ''kd'') = CHR ''\<newline>'' \<and>
   take 5 (readme_content ''kd'') = ''\<newline>---\<newline>''"
  using readme_starts_with_newline [OF minimal_run]
  by (simp add: minimal_run) (simp add: readme_content_def)

end
